theory Spec2Isabelle
  imports Main "HOL-Library.Word"
begin

section \<open>JavaScript strings\<close>

text \<open>
  A JavaScript string is a sequence of UTF-16 code units, and \<open>s.length\<close> counts code
  units. The model keeps exactly that: a string is a list of 16-bit words, \<open>length\<close> is
  the list length and \<open>+\<close> on strings is \<open>@\<close>.
\<close>

type_synonym jsstring = "16 word list"

text \<open>An ASCII string literal of the source, as code units.\<close>

definition lit :: "string \<Rightarrow> jsstring" where
  "lit s = map of_char s"

text \<open>
  \<open>String.prototype.trim\<close> (ECMAScript, TrimString with \<open>start+end\<close>) removes the leading
  and the trailing code points that are WhiteSpace or LineTerminator:
  TAB, LF, VT, FF, CR, SPACE, NBSP, ZWNBSP (U+FEFF), LS, PS and the category Zs
  (U+1680, U+2000 to U+200A, U+202F, U+205F, U+3000). All of them are single code units.
\<close>

definition isWhiteSpace :: "16 word \<Rightarrow> bool" where
  "isWhiteSpace c = (c \<in> set [0x0009, 0x000B, 0x000C, 0x0020, 0x00A0, 0x1680,
     0x2000, 0x2001, 0x2002, 0x2003, 0x2004, 0x2005, 0x2006, 0x2007, 0x2008, 0x2009, 0x200A,
     0x202F, 0x205F, 0x3000, 0xFEFF])"

definition isLineTerminator :: "16 word \<Rightarrow> bool" where
  "isLineTerminator c = (c \<in> set [0x000A, 0x000D, 0x2028, 0x2029])"

definition trimStart :: "jsstring \<Rightarrow> jsstring" where
  "trimStart s = dropWhile (\<lambda>c. isWhiteSpace c \<or> isLineTerminator c) s"

definition trimEnd :: "jsstring \<Rightarrow> jsstring" where
  "trimEnd s = rev (trimStart (rev s))"

definition trim :: "jsstring \<Rightarrow> jsstring" where
  "trim s = trimEnd (trimStart s)"

section \<open>Data model\<close>

text \<open>The declarations of \<open>types.ts\<close>.\<close>

datatype DreamState = IDLE | RECORDING | ANALYZING | COMPLETE | ERROR

datatype Role = user | model

record ChatMessage =
  role :: Role
  text' :: jsstring

text \<open>
  Modelled from the spec: the return type of \<open>generateDreamAnalysis\<close>
  (services/geminiService, not among the sources). The spec gives the response as
  \<open>{ interpretation: string, imageUrl: string }\<close>.

  \<open>DreamData\<close> has the fields \<open>transcript\<close>, \<open>imageUrl\<close> and \<open>interpretation\<close>; it is
  declared as the extension of the analysis result by \<open>transcript\<close>, which is how
  \<open>handleStopRecording\<close> builds it: \<open>{ transcript: finalTranscript, ...result }\<close>.
  (\<open>interpretation\<close> is a reserved word of the prover, hence the prime, as for \<open>text\<close>.)
\<close>

record AnalysisResult =
  interpretation' :: jsstring
  imageUrl :: jsstring

record DreamData = AnalysisResult +
  transcript :: jsstring

text \<open>
  A value thrown by the runtime or by a service. \<open>TypeError\<close> is what reading a property
  of \<open>undefined\<close> throws; \<open>ServiceError\<close> stands for whatever a call to
  \<open>generateDreamAnalysis\<close> or \<open>getChatResponse\<close> throws or rejects with (the handlers
  only log it).
\<close>

datatype js_error = TypeError | ServiceError jsstring

section \<open>The speech-recognition boundary\<close>

text \<open>
  A result event of the Web Speech API: \<open>event.resultIndex\<close> and \<open>event.results\<close>, each
  result with its list of alternatives (only their \<open>transcript\<close> is read, so an
  alternative is its transcript) and its \<open>isFinal\<close> flag.
\<close>

record SpeechRecognitionResult =
  alternatives :: "jsstring list"
  isFinal :: bool

record SpeechRecognitionEvent =
  resultIndex :: nat
  results :: "SpeechRecognitionResult list"

text \<open>
  The module-level \<open>recognition\<close> object, by the properties the source touches:
  \<open>continuous\<close> and \<open>interimResults\<close> set at load time, \<open>onresult\<close> (whether the
  handler of \<open>handleStartRecording\<close> has been assigned) and \<open>listening\<close>, set by
  \<open>start()\<close> and cleared by \<open>stop()\<close>. The engine's own life cycle is outside the model.
\<close>

record SpeechRecognizer =
  continuous :: bool
  interimResults :: bool
  onresult :: bool
  listening :: bool

section \<open>The state of \<open>App\<close>\<close>

text \<open>
  The six \<open>useState\<close> cells of \<open>App\<close>, \<open>finalTranscriptRef.current\<close> and the module-level
  \<open>recognition\<close> (\<open>None\<close> is \<open>null\<close>). A state setter is modelled as taking effect
  when it is called: every handler below writes each cell with values that do not depend
  on when the write is applied, and the handlers of a render are those of the latest state.
\<close>

record app_state =
  dreamState :: DreamState
  dreamData :: "DreamData option"
  chatHistory :: "ChatMessage list"
  isChatLoading :: bool
  error :: "jsstring option"
  transcript :: jsstring
  finalTranscriptRef :: jsstring
  recognition :: "SpeechRecognizer option"

definition setDreamState :: "DreamState \<Rightarrow> app_state \<Rightarrow> app_state" where
  "setDreamState v w = w\<lparr>dreamState := v\<rparr>"

definition setDreamData :: "DreamData option \<Rightarrow> app_state \<Rightarrow> app_state" where
  "setDreamData v w = w\<lparr>dreamData := v\<rparr>"

definition setChatHistory :: "ChatMessage list \<Rightarrow> app_state \<Rightarrow> app_state" where
  "setChatHistory v w = w\<lparr>chatHistory := v\<rparr>"

definition setIsChatLoading :: "bool \<Rightarrow> app_state \<Rightarrow> app_state" where
  "setIsChatLoading v w = w\<lparr>isChatLoading := v\<rparr>"

definition setError :: "jsstring option \<Rightarrow> app_state \<Rightarrow> app_state" where
  "setError v w = w\<lparr>error := v\<rparr>"

definition setTranscript :: "jsstring \<Rightarrow> app_state \<Rightarrow> app_state" where
  "setTranscript v w = w\<lparr>transcript := v\<rparr>"

text \<open>\<open>finalTranscriptRef.current = v\<close>\<close>

definition finalTranscriptRef_set :: "jsstring \<Rightarrow> app_state \<Rightarrow> app_state" where
  "finalTranscriptRef_set v w = w\<lparr>finalTranscriptRef := v\<rparr>"

text \<open>
  \<open>recognition.onresult = ...\<close>, \<open>recognition.start()\<close> and \<open>recognition.stop()\<close>; each
  is called only where \<open>recognition\<close> is not null.
\<close>

definition recognition_onresult_set :: "app_state \<Rightarrow> app_state" where
  "recognition_onresult_set w = w\<lparr>recognition := map_option (\<lambda>r. r\<lparr>onresult := True\<rparr>) (recognition w)\<rparr>"

definition recognition_start :: "app_state \<Rightarrow> app_state" where
  "recognition_start w = w\<lparr>recognition := map_option (\<lambda>r. r\<lparr>listening := True\<rparr>) (recognition w)\<rparr>"

definition recognition_stop :: "app_state \<Rightarrow> app_state" where
  "recognition_stop w = w\<lparr>recognition := map_option (\<lambda>r. r\<lparr>listening := False\<rparr>) (recognition w)\<rparr>"

text \<open>The statements of a handler, run one after the other on the state.\<close>

definition seq :: "(app_state \<Rightarrow> app_state) list \<Rightarrow> app_state \<Rightarrow> app_state" where
  "seq statements w = fold (\<lambda>statement. statement) statements w"

text \<open>
  Lines 11 to 17 and the initial values of the hooks: \<open>supported\<close> says whether
  \<open>window.SpeechRecognition || window.webkitSpeechRecognition\<close> is defined.
\<close>

definition initial :: "bool \<Rightarrow> app_state" where
  "initial supported =
     \<lparr>dreamState = IDLE, dreamData = None, chatHistory = [], isChatLoading = False,
      error = None, transcript = [], finalTranscriptRef = [],
      recognition = (if supported
        then Some \<lparr>continuous = True, interimResults = True, onresult = False, listening = False\<rparr>
        else None)\<rparr>"

section \<open>resetState\<close>

definition resetState :: "app_state \<Rightarrow> app_state" where
  "resetState w =
     seq [setDreamState IDLE,
          setDreamData None,
          setChatHistory [],
          setError None,
          setTranscript [],
          finalTranscriptRef_set []] w"

section \<open>The transcription bridge\<close>

text \<open>
  The loop of the \<open>onresult\<close> handler, from index \<open>i\<close> with the two local buffers.
  \<open>event.results[i][0].transcript\<close> throws a TypeError when the result has no
  alternative (\<open>results[i][0]\<close> is then \<open>undefined\<close>).
\<close>

function onresult_loop ::
  "SpeechRecognitionEvent \<Rightarrow> nat \<Rightarrow> jsstring \<Rightarrow> jsstring \<Rightarrow> js_error + jsstring \<times> jsstring" where
  "onresult_loop event i interimTranscript finalTranscriptChunk =
     (if i < length (results event) then
        if alternatives (results event ! i) = [] then Inl TypeError
        else
          let transcriptChunk = alternatives (results event ! i) ! 0 in
          if isFinal (results event ! i)
          then onresult_loop event (i + 1) interimTranscript (finalTranscriptChunk @ transcriptChunk)
          else onresult_loop event (i + 1) (interimTranscript @ transcriptChunk) finalTranscriptChunk
      else Inr (interimTranscript, finalTranscriptChunk))"
  by pat_completeness auto
termination
  by (relation "measure (\<lambda>(event, i, _, _). length (results event) - i)") auto

declare onresult_loop.simps [simp del]

text \<open>
  The handler assigned to \<open>recognition.onresult\<close>. Both writes come after the loop, so
  a throw leaves the state as it was.
\<close>

definition onresult_handler :: "SpeechRecognitionEvent \<Rightarrow> app_state \<Rightarrow> js_error + app_state" where
  "onresult_handler event w =
     (case onresult_loop event (resultIndex event) [] [] of
        Inl e \<Rightarrow> Inl e
      | Inr (interimTranscript, finalTranscriptChunk) \<Rightarrow>
          let w1 = finalTranscriptRef_set (finalTranscriptRef w @ finalTranscriptChunk) w
          in Inr (setTranscript (finalTranscriptRef w1 @ interimTranscript) w1))"

text \<open>
  Delivery of one result event: it reaches the handler when there is a recognizer with
  the handler assigned; an exception thrown by the handler ends that delivery only.
  Events are delivered in arrival order, each processed to completion.
\<close>

definition dispatch :: "SpeechRecognitionEvent \<Rightarrow> app_state \<Rightarrow> app_state" where
  "dispatch event w =
     (case recognition w of
        None \<Rightarrow> w
      | Some r \<Rightarrow>
          if onresult r
          then (case onresult_handler event w of Inl e \<Rightarrow> w | Inr w' \<Rightarrow> w')
          else w)"

fun dispatch_all :: "SpeechRecognitionEvent list \<Rightarrow> app_state \<Rightarrow> app_state" where
  "dispatch_all [] w = w"
| "dispatch_all (event # events) w = dispatch_all events (dispatch event w)"

section \<open>handleStartRecording\<close>

definition handleStartRecording :: "app_state \<Rightarrow> app_state" where
  "handleStartRecording w =
     (if recognition w = None
      then seq [setError (Some (lit ''Speech recognition is not supported in your browser.'')),
                setDreamState ERROR] w
      else seq [setTranscript [],
                finalTranscriptRef_set [],
                recognition_onresult_set,
                recognition_start,
                setDreamState RECORDING] w)"

section \<open>Asynchronous handlers\<close>

text \<open>
  An \<open>async\<close> handler runs up to its \<open>await\<close> when it is called and the rest when the
  awaited promise settles; other events may be handled in between. The first part
  either returns (\<open>Returned\<close>) or has issued exactly one service call and is suspended on
  it (\<open>Awaiting\<close>, with the arguments of the call); the second part takes the locals the
  closure kept, the outcome of the call (\<open>Inr\<close> the value the promise resolves to,
  \<open>Inl\<close> what it rejects with) and the state at that moment.
\<close>

datatype 'call suspended = Returned app_state | Awaiting 'call app_state

subsection \<open>handleStopRecording\<close>

text \<open>Up to \<open>await generateDreamAnalysis(finalTranscript)\<close>.\<close>

definition handleStopRecording :: "app_state \<Rightarrow> jsstring suspended" where
  "handleStopRecording w =
     (let w1 = (if recognition w \<noteq> None then recognition_stop w else w);
          w2 = setDreamState ANALYZING w1;
          finalTranscript = trim (finalTranscriptRef w2)
      in if length finalTranscript < 10
         then Returned (seq [setError (Some (lit
           ''Dream recording is too short. Please try again and describe your dream in more detail.'')),
           setDreamState ERROR] w2)
         else Awaiting finalTranscript w2)"

text \<open>After the \<open>await\<close>: the rest of the \<open>try\<close> block, or the \<open>catch\<close> block.\<close>

definition handleStopRecording_resume ::
  "jsstring \<Rightarrow> js_error + AnalysisResult \<Rightarrow> app_state \<Rightarrow> app_state" where
  "handleStopRecording_resume finalTranscript outcome w =
     (case outcome of
        Inr result \<Rightarrow>
          seq [setDreamData (Some \<lparr>interpretation' = interpretation' result,
                                   imageUrl = imageUrl result,
                                   DreamData.transcript = finalTranscript\<rparr>),
               setDreamState COMPLETE] w
      | Inl e \<Rightarrow>
          seq [setError (Some (lit
                 ''Failed to analyze the dream. The spirits are troubled. Please try again.'')),
               setDreamState ERROR] w)"

subsection \<open>handleSendMessage\<close>

text \<open>
  Up to \<open>await getChatResponse(dreamData.transcript, dreamData.interpretation, newHistory)\<close>;
  the call is the triple of its arguments.
\<close>

definition handleSendMessage ::
  "jsstring \<Rightarrow> app_state \<Rightarrow> (jsstring \<times> jsstring \<times> ChatMessage list) suspended" where
  "handleSendMessage message w =
     (case dreamData w of
        None \<Rightarrow> Returned w
      | Some d \<Rightarrow>
          let newHistory = chatHistory w @ [\<lparr>role = user, text' = message\<rparr>]
          in Awaiting (DreamData.transcript d, interpretation' d, newHistory)
               (seq [setChatHistory newHistory, setIsChatLoading True] w))"

text \<open>After the \<open>await\<close>: the \<open>try\<close> or the \<open>catch\<close> branch, then \<open>finally\<close>.\<close>

definition handleSendMessage_resume ::
  "ChatMessage list \<Rightarrow> js_error + jsstring \<Rightarrow> app_state \<Rightarrow> app_state" where
  "handleSendMessage_resume newHistory outcome w =
     (case outcome of
        Inr modelResponse \<Rightarrow>
          seq [setChatHistory (newHistory @ [\<lparr>role = model, text' = modelResponse\<rparr>]),
               setIsChatLoading False] w
      | Inl e \<Rightarrow>
          seq [setChatHistory (newHistory @ [\<lparr>role = model, text' = lit
                 ''I'm sorry, I lost my train of thought. Could you ask that again?''\<rparr>]),
               setIsChatLoading False] w)"


subsection \<open>A whole operation\<close>

text \<open>
  A stop request from the call to the end of the handler. While the analysis call is in
  flight the view (\<open>LoadingAnalysis\<close>) offers no control, so the only events that can be
  handled in between are result events that the stopped recognizer still delivers
  (\<open>late\<close>).
\<close>

definition handleStopRecording_run ::
  "SpeechRecognitionEvent list \<Rightarrow> js_error + AnalysisResult \<Rightarrow> app_state \<Rightarrow> app_state" where
  "handleStopRecording_run late outcome w =
     (case handleStopRecording w of
        Returned w' \<Rightarrow> w'
      | Awaiting finalTranscript w' \<Rightarrow>
          handleStopRecording_resume finalTranscript outcome (dispatch_all late w'))"

text \<open>A send-message operation from the call to the end of the handler, nothing in between.\<close>

definition handleSendMessage_run :: "jsstring \<Rightarrow> js_error + jsstring \<Rightarrow> app_state \<Rightarrow> app_state" where
  "handleSendMessage_run message outcome w =
     (case handleSendMessage message w of
        Returned w' \<Rightarrow> w'
      | Awaiting (t, i, newHistory) w' \<Rightarrow> handleSendMessage_resume newHistory outcome w')"

text \<open>The state in which the first part of an asynchronous handler leaves the application.\<close>

definition state_of :: "'call suspended \<Rightarrow> app_state" where
  "state_of s = (case s of Returned w \<Rightarrow> w | Awaiting call w \<Rightarrow> w)"

section \<open>Notions of the specification\<close>

text \<open>
  The specification speaks of the segments an event brings (those from the resume index
  on), of the text of its finalized and of its interim segments, and of what a chat
  operation must leave alone. These definitions follow its words; the theorems compare
  them with the handlers above.
\<close>

definition new_segments :: "SpeechRecognitionEvent \<Rightarrow> SpeechRecognitionResult list" where
  "new_segments event = drop (resultIndex event) (results event)"

definition segment_text :: "SpeechRecognitionResult \<Rightarrow> jsstring" where
  "segment_text r = (case alternatives r of [] \<Rightarrow> [] | a # _ \<Rightarrow> a)"

definition finalized_text :: "SpeechRecognitionEvent \<Rightarrow> jsstring" where
  "finalized_text event = concat (map segment_text (filter isFinal (new_segments event)))"

definition interim_text :: "SpeechRecognitionEvent \<Rightarrow> jsstring" where
  "interim_text event =
     concat (map segment_text (filter (\<lambda>r. \<not> isFinal r) (new_segments event)))"

text \<open>
  An event as the Web Speech API delivers it: every result carries at least one
  alternative (\<open>maxAlternatives\<close> is left at its default 1).
\<close>

definition well_formed :: "SpeechRecognitionEvent \<Rightarrow> bool" where
  "well_formed event = list_all (\<lambda>r. alternatives r \<noteq> []) (new_segments event)"

text \<open>
  \<open>only_chat_changed w w'\<close>: every cell other than \<open>chatHistory\<close> and \<open>isChatLoading\<close>
  has in \<open>w'\<close> the value it has in \<open>w\<close>.
\<close>

definition only_chat_changed :: "app_state \<Rightarrow> app_state \<Rightarrow> bool" where
  "only_chat_changed w w' =
     (dreamState w' = dreamState w \<and> dreamData w' = dreamData w \<and> error w' = error w \<and>
      transcript w' = transcript w \<and> finalTranscriptRef w' = finalTranscriptRef w \<and>
      recognition w' = recognition w)"

section \<open>Example sessions\<close>

text \<open>
  Three result events of one session: an interim hypothesis, its finalization together
  with a new interim segment, and the finalization of that segment.
\<close>

definition event1 :: SpeechRecognitionEvent where
  "event1 = \<lparr>resultIndex = 0, results =
     [\<lparr>alternatives = [lit ''I was flying''], isFinal = False\<rparr>]\<rparr>"

definition event2 :: SpeechRecognitionEvent where
  "event2 = \<lparr>resultIndex = 0, results =
     [\<lparr>alternatives = [lit ''I was flying over a purple ocean''], isFinal = True\<rparr>,
      \<lparr>alternatives = [lit '' and then''], isFinal = False\<rparr>]\<rparr>"

definition event3 :: SpeechRecognitionEvent where
  "event3 = \<lparr>resultIndex = 1, results =
     [\<lparr>alternatives = [lit ''I was flying over a purple ocean''], isFinal = True\<rparr>,
      \<lparr>alternatives = [lit '' and then I woke up ''], isFinal = True\<rparr>]\<rparr>"

definition event_hi :: SpeechRecognitionEvent where
  "event_hi = \<lparr>resultIndex = 0, results = [\<lparr>alternatives = [lit '' hi''], isFinal = True\<rparr>]\<rparr>"

definition started :: app_state where
  "started = handleStartRecording (initial True)"

definition started_recognizer :: SpeechRecognizer where
  "started_recognizer = \<lparr>continuous = True, interimResults = True, onresult = True, listening = True\<rparr>"

definition recorded :: app_state where
  "recorded = dispatch_all [event1, event2, event3] started"

definition recorded_hi :: app_state where
  "recorded_hi = dispatch_all [event_hi] started"

definition example_result :: AnalysisResult where
  "example_result = \<lparr>interpretation' = lit ''...'', imageUrl = lit ''http://x/img.png''\<rparr>"

definition example_dream :: DreamData where
  "example_dream = \<lparr>interpretation' = lit ''...'', imageUrl = lit ''http://x/img.png'',
     DreamData.transcript = lit ''I was flying over a purple ocean and then I woke up''\<rparr>"

definition completed :: app_state where
  "completed = handleStopRecording_run [] (Inr example_result) recorded"

section \<open>Auxiliary facts\<close>

lemmas setters = seq_def setDreamState_def setDreamData_def setChatHistory_def setIsChatLoading_def
  setError_def setTranscript_def finalTranscriptRef_set_def
  recognition_onresult_set_def recognition_start_def recognition_stop_def

lemma lit_eq_Nil [simp]: "lit s = [] \<longleftrightarrow> s = []"
  by (simp add: lit_def)

subsection \<open>The loop of the handler\<close>

text \<open>
  On results that all have an alternative, the loop appends to the interim buffer the
  text of the non-final results from \<open>i\<close> on, and to the final chunk that of the final ones.
\<close>

lemma onresult_loop_eq:
  "list_all (\<lambda>r. alternatives r \<noteq> []) (drop i (results event)) \<Longrightarrow>
   onresult_loop event i interim final =
     Inr (interim @ concat (map segment_text (filter (\<lambda>r. \<not> isFinal r) (drop i (results event)))),
          final @ concat (map segment_text (filter isFinal (drop i (results event)))))"
proof (induction event i interim final rule: onresult_loop.induct)
  case (1 event i interim final)
  show ?case
  proof (cases "i < length (results event)")
    case False
    then show ?thesis by (subst onresult_loop.simps) simp
  next
    case True
    then have d: "drop i (results event) = results event ! i # drop (Suc i) (results event)"
      by (simp add: Cons_nth_drop_Suc)
    with "1.prems" have ne: "alternatives (results event ! i) \<noteq> []"
      and rest: "list_all (\<lambda>r. alternatives r \<noteq> []) (drop (i + 1) (results event))"
      by simp_all
    from ne have st: "segment_text (results event ! i) = alternatives (results event ! i) ! 0"
      by (cases "alternatives (results event ! i)") (simp_all add: segment_text_def)
    show ?thesis
    proof (cases "isFinal (results event ! i)")
      case True
      with \<open>i < length (results event)\<close> ne rest "1.IH"(1) [OF _ _ refl] d st show ?thesis
        by (subst onresult_loop.simps) simp
    next
      case False
      with \<open>i < length (results event)\<close> ne rest "1.IH"(2) [OF _ _ refl] d st show ?thesis
        by (subst onresult_loop.simps) simp
    qed
  qed
qed

lemma onresult_handler_well_formed:
  "well_formed event \<Longrightarrow>
   onresult_handler event w =
     Inr (w\<lparr>finalTranscriptRef := finalTranscriptRef w @ finalized_text event,
            transcript := finalTranscriptRef w @ finalized_text event @ interim_text event\<rparr>)"
  by (simp add: onresult_handler_def well_formed_def new_segments_def onresult_loop_eq
      finalized_text_def interim_text_def setters)

text \<open>
  A result without alternative in the range of the loop makes the handler throw, and
  nothing but that does: the handler throws exactly on the events that are not well formed.
\<close>

lemma onresult_loop_throws:
  "\<not> list_all (\<lambda>r. alternatives r \<noteq> []) (drop i (results event)) \<Longrightarrow>
   onresult_loop event i interim final = Inl TypeError"
proof (induction event i interim final rule: onresult_loop.induct)
  case (1 event i interim final)
  from "1.prems" have lt: "i < length (results event)"
    by (cases "i < length (results event)") simp_all
  then have d: "drop i (results event) = results event ! i # drop (Suc i) (results event)"
    by (simp add: Cons_nth_drop_Suc)
  show ?case
  proof (cases "alternatives (results event ! i) = []")
    case True
    with lt show ?thesis by (subst onresult_loop.simps) simp
  next
    case False
    with "1.prems" d have rest: "\<not> list_all (\<lambda>r. alternatives r \<noteq> []) (drop (i + 1) (results event))"
      by simp
    show ?thesis
    proof (cases "isFinal (results event ! i)")
      case True
      with lt False "1.IH"(1) [OF lt False refl True rest] show ?thesis
        by (subst onresult_loop.simps) simp
    next
      case nf: False
      with lt False "1.IH"(2) [OF lt False refl nf rest] show ?thesis
        by (subst onresult_loop.simps) simp
    qed
  qed
qed

lemma onresult_handler_malformed:
  "\<not> well_formed event \<Longrightarrow> onresult_handler event w = Inl TypeError"
  by (simp add: onresult_handler_def well_formed_def new_segments_def onresult_loop_throws)

subsection \<open>Delivery of events\<close>

lemma dispatch_malformed: "\<not> well_formed event \<Longrightarrow> dispatch event w = w"
  by (simp add: dispatch_def onresult_handler_malformed split: option.split)

lemma dispatch_well_formed:
  "recognition w = Some r \<Longrightarrow> onresult r \<Longrightarrow> well_formed event \<Longrightarrow>
   dispatch event w =
     w\<lparr>finalTranscriptRef := finalTranscriptRef w @ finalized_text event,
       transcript := finalTranscriptRef w @ finalized_text event @ interim_text event\<rparr>"
  by (simp add: dispatch_def onresult_handler_well_formed)

lemma dispatch_all_finalTranscriptRef:
  "recognition w = Some r \<Longrightarrow> onresult r \<Longrightarrow> list_all well_formed events \<Longrightarrow>
   finalTranscriptRef (dispatch_all events w) =
     finalTranscriptRef w @ concat (map finalized_text events) \<and>
   recognition (dispatch_all events w) = Some r"
proof (induction events arbitrary: w)
  case Nil
  then show ?case by simp
next
  case (Cons event events)
  from Cons.prems have d: "dispatch event w =
     w\<lparr>finalTranscriptRef := finalTranscriptRef w @ finalized_text event,
       transcript := finalTranscriptRef w @ finalized_text event @ interim_text event\<rparr>"
    by (simp add: dispatch_well_formed)
  from Cons.prems have "recognition (dispatch event w) = Some r" "list_all well_formed events"
    by (simp_all add: d)
  from Cons.IH [OF this(1) \<open>onresult r\<close> this(2)] show ?case
    by (simp add: d)
qed

lemma dispatch_all_append:
  "dispatch_all (xs @ ys) w = dispatch_all ys (dispatch_all xs w)"
  by (induction xs arbitrary: w) simp_all

text \<open>Whatever the event, its delivery writes at most the two transcript cells.\<close>

lemma dispatch_keeps:
  "dreamState (dispatch event w) = dreamState w \<and> dreamData (dispatch event w) = dreamData w \<and>
   error (dispatch event w) = error w \<and> chatHistory (dispatch event w) = chatHistory w \<and>
   isChatLoading (dispatch event w) = isChatLoading w \<and>
   recognition (dispatch event w) = recognition w"
  by (simp add: dispatch_def onresult_handler_def Let_def setters
      split: option.split sum.split prod.split)

lemma dispatch_all_keeps:
  "dreamState (dispatch_all events w) = dreamState w \<and>
   dreamData (dispatch_all events w) = dreamData w \<and>
   error (dispatch_all events w) = error w \<and>
   chatHistory (dispatch_all events w) = chatHistory w \<and>
   isChatLoading (dispatch_all events w) = isChatLoading w \<and>
   recognition (dispatch_all events w) = recognition w"
proof (induction events arbitrary: w)
  case Nil
  show ?case by simp
next
  case (Cons event events)
  from Cons.IH [of "dispatch event w"] dispatch_keeps [of event w] show ?case by simp
qed

lemma dispatch_all_no_recognition: "recognition w = None \<Longrightarrow> dispatch_all events w = w"
  by (induction events) (simp_all add: dispatch_def)


section \<open>The transcription bridge: the displayed transcript\<close>

text \<open>
  Claim C1. Take a state whose recognizer has the handler assigned and whose accumulator
  is empty, as at the start of a session, and deliver any sequence of well-formed result
  events. After the last event delivered (so after each event, the sequence being
  arbitrary) the displayed transcript is the concatenation of the finalized segments of
  all the events processed so far, followed by the interim segments of that last event
  only; the accumulator holds the finalized part. Interim text of earlier events does not
  appear again.
\<close>

theorem displayed_transcript:
  assumes "recognition w = Some r" and "onresult r" and "finalTranscriptRef w = []"
    and "list_all well_formed (events @ [event])"
  shows "transcript (dispatch_all (events @ [event]) w) =
           concat (map finalized_text (events @ [event])) @ interim_text event
       \<and> finalTranscriptRef (dispatch_all (events @ [event]) w) =
           concat (map finalized_text (events @ [event]))"
proof -
  let ?w1 = "dispatch_all events w"
  from assms have wf: "list_all well_formed events" "well_formed event" by simp_all
  from dispatch_all_finalTranscriptRef [OF assms(1,2) wf(1)] assms(3)
  have f: "finalTranscriptRef ?w1 = concat (map finalized_text events)"
    and r: "recognition ?w1 = Some r" by simp_all
  have "dispatch_all (events @ [event]) w = dispatch event ?w1"
    by (simp add: dispatch_all_append)
  then show ?thesis
    by (simp add: dispatch_well_formed [OF r assms(2) wf(2)] f)
qed

theorem displayed_transcript_witness:
  "recognition started = Some started_recognizer \<and> onresult started_recognizer \<and>
   finalTranscriptRef started = [] \<and> list_all well_formed ([event1, event2] @ [event3]) \<and>
   transcript (dispatch_all ([event1, event2] @ [event3]) started) =
     concat (map finalized_text ([event1, event2] @ [event3])) @ interim_text event3 \<and>
   finalTranscriptRef (dispatch_all ([event1, event2] @ [event3]) started) =
     concat (map finalized_text ([event1, event2] @ [event3])) \<and>
   transcript (dispatch_all [event1, event2] started) =
     lit ''I was flying over a purple ocean and then''"
proof -
  have h1: "recognition started = Some started_recognizer" by code_simp
  have h2: "onresult started_recognizer" by code_simp
  have h3: "finalTranscriptRef started = []" by code_simp
  have h4: "list_all well_formed ([event1, event2] @ [event3])" by code_simp
  have v: "transcript (dispatch_all [event1, event2] started) =
     lit ''I was flying over a purple ocean and then''" by code_simp
  from displayed_transcript [OF h1 h2 h3 h4] h1 h2 h3 h4 v show ?thesis by blast
qed

section \<open>Stopping the recording\<close>

text \<open>
  Claim C2. When the accumulated final transcript, trimmed, has fewer than 10 code
  units (what \<open>length\<close> counts), a stop request returns without awaiting anything: no
  analysis call is issued, whatever the service would have answered the operation ends in
  the same state, and that state is \<open>ERROR\<close> with the short-transcript message.
\<close>

theorem stop_short_transcript:
  assumes "length (trim (finalTranscriptRef w)) < 10"
  shows "\<exists>w'. handleStopRecording w = Returned w' \<and>
           handleStopRecording_run late outcome w = w' \<and>
           dreamState w' = ERROR \<and>
           error w' = Some (lit
             ''Dream recording is too short. Please try again and describe your dream in more detail.'')"
  using assms by (simp add: handleStopRecording_run_def handleStopRecording_def setters)

theorem stop_short_transcript_witness:
  "length (trim (finalTranscriptRef recorded_hi)) < 10 \<and>
   (\<exists>w'. handleStopRecording recorded_hi = Returned w' \<and>
      handleStopRecording_run [event3] (Inr example_result) recorded_hi = w' \<and>
      dreamState w' = ERROR \<and>
      error w' = Some (lit
        ''Dream recording is too short. Please try again and describe your dream in more detail.''))"
proof -
  have h: "length (trim (finalTranscriptRef recorded_hi)) < 10" by code_simp
  from stop_short_transcript [OF h, where late = "[event3]" and outcome = "Inr example_result"] h
  show ?thesis by blast
qed

text \<open>
  Claim C3. When the trimmed final transcript has at least 10 code units, a stop request
  issues the analysis call with exactly that trimmed string; if the call succeeds with
  some result, the operation ends in \<open>COMPLETE\<close> and the stored \<open>DreamData\<close> has that
  same string as its transcript and the returned interpretation and image URL. This holds
  also when late result events arrive while the call is in flight.
\<close>

theorem stop_analysis_succeeds:
  assumes "10 \<le> length (trim (finalTranscriptRef w))"
  shows "\<exists>w1. handleStopRecording w = Awaiting (trim (finalTranscriptRef w)) w1 \<and>
           dreamState (handleStopRecording_run late (Inr result) w) = COMPLETE \<and>
           dreamData (handleStopRecording_run late (Inr result) w) =
             Some \<lparr>interpretation' = interpretation' result, imageUrl = imageUrl result,
                   DreamData.transcript = trim (finalTranscriptRef w)\<rparr>"
  using assms
  by (simp add: handleStopRecording_run_def handleStopRecording_def handleStopRecording_resume_def
      setters)

theorem stop_analysis_succeeds_witness:
  "10 \<le> length (trim (finalTranscriptRef recorded)) \<and>
   trim (finalTranscriptRef recorded) = lit ''I was flying over a purple ocean and then I woke up'' \<and>
   (\<exists>w1. handleStopRecording recorded = Awaiting (trim (finalTranscriptRef recorded)) w1 \<and>
      dreamState (handleStopRecording_run [] (Inr example_result) recorded) = COMPLETE \<and>
      dreamData (handleStopRecording_run [] (Inr example_result) recorded) =
        Some \<lparr>interpretation' = interpretation' example_result, imageUrl = imageUrl example_result,
              DreamData.transcript = trim (finalTranscriptRef recorded)\<rparr>)"
proof -
  have h: "10 \<le> length (trim (finalTranscriptRef recorded))" by code_simp
  have v: "trim (finalTranscriptRef recorded) =
    lit ''I was flying over a purple ocean and then I woke up''" by code_simp
  from stop_analysis_succeeds [OF h, where late = "[]" and result = example_result] h v
  show ?thesis by blast
qed

text \<open>
  Claim C4. When the analysis call of a stop request fails, whatever it throws, the
  operation ends in \<open>ERROR\<close> with the fixed failure message, which is not empty, and the
  stored \<open>DreamData\<close> is what it was before the request: nothing is stored, and where it
  was null it remains null.
\<close>

theorem stop_analysis_fails:
  assumes "10 \<le> length (trim (finalTranscriptRef w))"
  shows "\<exists>w1 msg. handleStopRecording w = Awaiting (trim (finalTranscriptRef w)) w1 \<and>
           dreamState (handleStopRecording_run late (Inl e) w) = ERROR \<and>
           error (handleStopRecording_run late (Inl e) w) = Some msg \<and> msg \<noteq> [] \<and>
           msg = lit ''Failed to analyze the dream. The spirits are troubled. Please try again.'' \<and>
           dreamData (handleStopRecording_run late (Inl e) w) = dreamData w \<and>
           (dreamData w = None \<longrightarrow> dreamData (handleStopRecording_run late (Inl e) w) = None)"
  using assms
  by (simp add: handleStopRecording_run_def handleStopRecording_def handleStopRecording_resume_def
      dispatch_all_keeps setters)

theorem stop_analysis_fails_witness:
  "10 \<le> length (trim (finalTranscriptRef recorded)) \<and> dreamData recorded = None \<and>
   (\<exists>w1 msg. handleStopRecording recorded = Awaiting (trim (finalTranscriptRef recorded)) w1 \<and>
      dreamState (handleStopRecording_run [] (Inl (ServiceError (lit ''503''))) recorded) = ERROR \<and>
      error (handleStopRecording_run [] (Inl (ServiceError (lit ''503''))) recorded) = Some msg \<and>
      msg \<noteq> [] \<and>
      msg = lit ''Failed to analyze the dream. The spirits are troubled. Please try again.'' \<and>
      dreamData (handleStopRecording_run [] (Inl (ServiceError (lit ''503''))) recorded) =
        dreamData recorded \<and>
      (dreamData recorded = None \<longrightarrow>
       dreamData (handleStopRecording_run [] (Inl (ServiceError (lit ''503''))) recorded) = None))"
proof -
  have h: "10 \<le> length (trim (finalTranscriptRef recorded))" by code_simp
  have n: "dreamData recorded = None" by code_simp
  from stop_analysis_fails [OF h, where late = "[]" and e = "ServiceError (lit ''503'')"] h n
  show ?thesis by blast
qed

section \<open>The chat\<close>

text \<open>
  Claim C5. A send-message operation in the \<open>COMPLETE\<close> state with \<open>DreamData\<close> present
  appends one user message with the sent text at once (and issues the chat call with the
  stored transcript and interpretation and the extended history); when the call settles
  one model message follows: the reply on success, the fixed apology on failure. Either
  way the final history is the prior history followed by those two messages, in that
  order.
\<close>

theorem send_appends_two_messages:
  assumes "dreamState w = COMPLETE" and "dreamData w = Some d"
  shows "handleSendMessage message w =
           Awaiting (DreamData.transcript d, interpretation' d,
                     chatHistory w @ [\<lparr>role = user, text' = message\<rparr>])
             (w\<lparr>chatHistory := chatHistory w @ [\<lparr>role = user, text' = message\<rparr>],
                isChatLoading := True\<rparr>)
       \<and> chatHistory (handleSendMessage_run message (Inr modelResponse) w) =
           chatHistory w @ [\<lparr>role = user, text' = message\<rparr>,
                            \<lparr>role = model, text' = modelResponse\<rparr>]
       \<and> chatHistory (handleSendMessage_run message (Inl e) w) =
           chatHistory w @ [\<lparr>role = user, text' = message\<rparr>,
                            \<lparr>role = model, text' = lit
                               ''I'm sorry, I lost my train of thought. Could you ask that again?''\<rparr>]"
  using assms
  by (simp add: handleSendMessage_run_def handleSendMessage_def handleSendMessage_resume_def
      setters Let_def)

theorem send_appends_two_messages_witness:
  "dreamState completed = COMPLETE \<and> dreamData completed = Some example_dream \<and>
   handleSendMessage (lit ''What does the ocean mean?'') completed =
     Awaiting (DreamData.transcript example_dream, interpretation' example_dream,
               chatHistory completed @ [\<lparr>role = user, text' = lit ''What does the ocean mean?''\<rparr>])
       (completed\<lparr>chatHistory :=
           chatHistory completed @ [\<lparr>role = user, text' = lit ''What does the ocean mean?''\<rparr>],
          isChatLoading := True\<rparr>) \<and>
   chatHistory (handleSendMessage_run (lit ''What does the ocean mean?'') (Inr (lit ''Depth.''))
       completed) =
     chatHistory completed @ [\<lparr>role = user, text' = lit ''What does the ocean mean?''\<rparr>,
                              \<lparr>role = model, text' = lit ''Depth.''\<rparr>] \<and>
   chatHistory (handleSendMessage_run (lit ''What does the ocean mean?'') (Inl TypeError)
       completed) =
     chatHistory completed @ [\<lparr>role = user, text' = lit ''What does the ocean mean?''\<rparr>,
                              \<lparr>role = model, text' = lit
                                 ''I'm sorry, I lost my train of thought. Could you ask that again?''\<rparr>]"
proof -
  have h1: "dreamState completed = COMPLETE" by code_simp
  have h2: "dreamData completed = Some example_dream" by code_simp
  from send_appends_two_messages [OF h1 h2, where message = "lit ''What does the ocean mean?''"
      and modelResponse = "lit ''Depth.''" and e = TypeError] h1 h2
  show ?thesis by blast
qed

text \<open>
  Claim C8. A send-message operation, whether the chat call succeeds or fails, leaves
  the dream state, the stored \<open>DreamData\<close>, the error message and the transcript (the
  displayed one and the accumulator, and the recognizer too) as they were: this holds for
  the part before the call, for the whole operation, and for the part after the call in
  whatever state it resumes. Only \<open>chatHistory\<close> and \<open>isChatLoading\<close> are written.
\<close>

theorem send_only_chat_changed:
  "only_chat_changed w (state_of (handleSendMessage message w)) \<and>
   only_chat_changed w (handleSendMessage_run message outcome w) \<and>
   only_chat_changed w' (handleSendMessage_resume newHistory outcome w')"
  by (simp add: only_chat_changed_def state_of_def handleSendMessage_run_def handleSendMessage_def
      Let_def handleSendMessage_resume_def setters split: option.split sum.split)

text \<open>
  Claim C10. A send-message operation with no \<open>DreamData\<close> stored returns at once in
  the state it was called in: no message is appended, \<open>isChatLoading\<close> is not set, no chat
  call is issued, and nothing changes.
\<close>

theorem send_without_dreamData:
  assumes "dreamData w = None"
  shows "handleSendMessage message w = Returned w \<and> handleSendMessage_run message outcome w = w"
  using assms by (simp add: handleSendMessage_run_def handleSendMessage_def)

theorem send_without_dreamData_witness:
  "dreamData (initial True) = None \<and>
   handleSendMessage (lit ''hello'') (initial True) = Returned (initial True) \<and>
   handleSendMessage_run (lit ''hello'') (Inr (lit ''hi'')) (initial True) = initial True"
proof -
  have h: "dreamData (initial True) = None" by code_simp
  from send_without_dreamData [OF h, where message = "lit ''hello''" and outcome = "Inr (lit ''hi'')"] h
  show ?thesis by blast
qed

section \<open>Reset\<close>

text \<open>
  Claim C6. A reset requested in the \<open>COMPLETE\<close> or the \<open>ERROR\<close> state gives a state that
  is \<open>IDLE\<close>, with the transcript accumulator and the displayed transcript empty, the chat
  history empty, no error message and no \<open>DreamData\<close>.
\<close>

theorem resetState_clears:
  assumes "dreamState w = COMPLETE \<or> dreamState w = ERROR"
  shows "dreamState (resetState w) = IDLE \<and> finalTranscriptRef (resetState w) = [] \<and>
         transcript (resetState w) = [] \<and> chatHistory (resetState w) = [] \<and>
         error (resetState w) = None \<and> dreamData (resetState w) = None"
  by (simp add: resetState_def setters)

theorem resetState_clears_witness:
  "(dreamState completed = COMPLETE \<or> dreamState completed = ERROR) \<and>
   dreamData completed \<noteq> None \<and> finalTranscriptRef completed \<noteq> [] \<and>
   dreamState (resetState completed) = IDLE \<and> finalTranscriptRef (resetState completed) = [] \<and>
   transcript (resetState completed) = [] \<and> chatHistory (resetState completed) = [] \<and>
   error (resetState completed) = None \<and> dreamData (resetState completed) = None"
proof -
  have h: "dreamState completed = COMPLETE \<or> dreamState completed = ERROR" by code_simp
  have v: "dreamData completed \<noteq> None" "finalTranscriptRef completed \<noteq> []" by code_simp+
  from resetState_clears [OF h] h v show ?thesis by blast
qed

section \<open>Starting the recording\<close>

text \<open>
  Claim C7. A start request made when there is no speech recognizer ends in \<open>ERROR\<close>
  with the fixed not-supported message, not in \<open>RECORDING\<close>; there is still no recognizer,
  so nothing has been started, and no result event delivered afterwards changes the state.
\<close>

theorem start_unsupported:
  assumes "recognition w = None"
  shows "dreamState (handleStartRecording w) = ERROR
       \<and> error (handleStartRecording w) =
           Some (lit ''Speech recognition is not supported in your browser.'')
       \<and> dreamState (handleStartRecording w) \<noteq> RECORDING
       \<and> recognition (handleStartRecording w) = None
       \<and> dispatch_all events (handleStartRecording w) = handleStartRecording w"
proof -
  from assms have "recognition (handleStartRecording w) = None"
    by (simp add: handleStartRecording_def setters)
  with assms show ?thesis
    by (simp add: dispatch_all_no_recognition) (simp add: handleStartRecording_def setters)
qed

theorem start_unsupported_witness:
  "recognition (initial False) = None
   \<and> dreamState (handleStartRecording (initial False)) = ERROR
   \<and> error (handleStartRecording (initial False)) =
       Some (lit ''Speech recognition is not supported in your browser.'')
   \<and> dreamState (handleStartRecording (initial False)) \<noteq> RECORDING
   \<and> recognition (handleStartRecording (initial False)) = None
   \<and> dispatch_all [event1, event2] (handleStartRecording (initial False)) =
       handleStartRecording (initial False)"
proof -
  have h: "recognition (initial False) = None" by code_simp
  from start_unsupported [OF h, where events = "[event1, event2]"] h show ?thesis by blast
qed

text \<open>
  Claim C9. A start request made when there is a speech recognizer ends in \<open>RECORDING\<close>
  with both the accumulator and the displayed transcript empty, and they are already
  empty in the state in which \<open>recognition.start()\<close> is called (a state where the
  recognizer listens no more than before the request). Hence what the events of the new
  session produce does not depend on the transcript state left by an earlier session:
  with any other content \<open>t\<close> and \<open>f\<close> of the two cells before the request, the same
  events lead to the same state.
\<close>

theorem start_clears_transcripts:
  assumes "recognition w \<noteq> None"
  shows "(\<exists>w0. handleStartRecording w = seq [recognition_start, setDreamState RECORDING] w0 \<and>
            transcript w0 = [] \<and> finalTranscriptRef w0 = [] \<and>
            map_option listening (recognition w0) = map_option listening (recognition w))
       \<and> dreamState (handleStartRecording w) = RECORDING
       \<and> transcript (handleStartRecording w) = []
       \<and> finalTranscriptRef (handleStartRecording w) = []
       \<and> dispatch_all events (handleStartRecording (w\<lparr>transcript := t, finalTranscriptRef := f\<rparr>)) =
           dispatch_all events (handleStartRecording w)"
proof -
  from assms obtain r where r: "recognition w = Some r" by auto
  let ?w0 = "seq [setTranscript [], finalTranscriptRef_set [], recognition_onresult_set] w"
  have "handleStartRecording w = seq [recognition_start, setDreamState RECORDING] ?w0"
    by (simp add: handleStartRecording_def seq_def r)
  moreover have "transcript ?w0 = []" "finalTranscriptRef ?w0 = []"
    "map_option listening (recognition ?w0) = map_option listening (recognition w)"
    by (simp_all add: setters r)
  ultimately have 1: "\<exists>w0. handleStartRecording w = seq [recognition_start, setDreamState RECORDING] w0 \<and>
            transcript w0 = [] \<and> finalTranscriptRef w0 = [] \<and>
            map_option listening (recognition w0) = map_option listening (recognition w)"
    by blast
  have 2: "dreamState (handleStartRecording w) = RECORDING"
    "transcript (handleStartRecording w) = []" "finalTranscriptRef (handleStartRecording w) = []"
    by (simp_all add: handleStartRecording_def setters r)
  have "handleStartRecording (w\<lparr>transcript := t, finalTranscriptRef := f\<rparr>) = handleStartRecording w"
    by (simp add: handleStartRecording_def setters r)
  with 1 2 show ?thesis by simp
qed

theorem start_clears_transcripts_witness:
  "recognition recorded \<noteq> None \<and> finalTranscriptRef recorded \<noteq> [] \<and> transcript recorded \<noteq> []
   \<and> (\<exists>w0. handleStartRecording recorded = seq [recognition_start, setDreamState RECORDING] w0 \<and>
            transcript w0 = [] \<and> finalTranscriptRef w0 = [] \<and>
            map_option listening (recognition w0) = map_option listening (recognition recorded))
   \<and> dreamState (handleStartRecording recorded) = RECORDING
   \<and> transcript (handleStartRecording recorded) = []
   \<and> finalTranscriptRef (handleStartRecording recorded) = []
   \<and> dispatch_all [event_hi]
        (handleStartRecording (recorded\<lparr>transcript := lit ''old'', finalTranscriptRef := lit ''older''\<rparr>)) =
      dispatch_all [event_hi] (handleStartRecording recorded)
   \<and> transcript (dispatch_all [event_hi] (handleStartRecording recorded)) = lit '' hi''"
proof -
  have h: "recognition recorded \<noteq> None" by code_simp
  have v: "finalTranscriptRef recorded \<noteq> []" "transcript recorded \<noteq> []"
    "transcript (dispatch_all [event_hi] (handleStartRecording recorded)) = lit '' hi''"
    by code_simp+
  from start_clears_transcripts [OF h, where events = "[event_hi]" and t = "lit ''old''"
      and f = "lit ''older''"] h v
  show ?thesis by blast
qed

end
